theory Spec2Isabelle
  imports Main "HOL-Library.Monad_Syntax"
begin

section \<open>Exceptions\<close>

text \<open>
  Every \<^verbatim>\<open>raise\<close>, failed \<^verbatim>\<open>assert\<close>, missing dictionary key and bad index of the
  Python source is a value of this type.
\<close>

datatype error =
    Exception string
  | ValueError
  | KeyError
  | IndexError
  | AssertionError
  | AttributeError

section \<open>ListPreferenceFunction\<close>

text \<open>
  \<^verbatim>\<open>ListPreferenceFunction\<close> wraps \<^verbatim>\<open>internal_list\<close>, most preferred first.
  The two loops of \<^verbatim>\<open>get_all_preferred\<close> and \<^verbatim>\<open>get_all_dispreferred\<close> carry the
  accumulator the source appends to; falling off the end of the list is the
  \<^verbatim>\<open>raise Exception\<close> after the loop.
\<close>

record ListPreferenceFunction =
  internal_list :: "int list"

fun get_all_preferred_loop :: "int list \<Rightarrow> int \<Rightarrow> int list \<Rightarrow> error + int list" where
  "get_all_preferred_loop [] uid preferred = Inl (Exception ''uid not in preference list'')"
| "get_all_preferred_loop (agent # rest) uid preferred =
     (if agent = uid then Inr preferred
      else get_all_preferred_loop rest uid (preferred @ [agent]))"

definition get_all_preferred :: "ListPreferenceFunction \<Rightarrow> int \<Rightarrow> error + int list" where
  "get_all_preferred pf uid = get_all_preferred_loop (internal_list pf) uid []"

definition get_all_dispreferred :: "ListPreferenceFunction \<Rightarrow> int \<Rightarrow> error + int list" where
  "get_all_dispreferred pf uid = get_all_preferred_loop (rev (internal_list pf)) uid []"

definition get_all_weakly_preferred :: "ListPreferenceFunction \<Rightarrow> int \<Rightarrow> error + int list" where
  "get_all_weakly_preferred pf uid =
     (case get_all_preferred pf uid of
        Inl e \<Rightarrow> Inl e
      | Inr preferred \<Rightarrow> Inr (preferred @ [uid]))"

definition get_ordering :: "ListPreferenceFunction \<Rightarrow> int list" where
  "get_ordering pf = internal_list pf"

text \<open>\<^verbatim>\<open>list.index\<close>: the position of the first equal element, \<^verbatim>\<open>ValueError\<close> when there is none.\<close>

fun list_index :: "int list \<Rightarrow> int \<Rightarrow> error + nat" where
  "list_index [] x = Inl ValueError"
| "list_index (y # ys) x =
     (if y = x then Inr 0
      else (case list_index ys x of Inl e \<Rightarrow> Inl e | Inr n \<Rightarrow> Inr (Suc n)))"

definition get_rank :: "ListPreferenceFunction \<Rightarrow> int \<Rightarrow> error + nat" where
  "get_rank pf uid = list_index (internal_list pf) uid"

section \<open>Agents\<close>

text \<open>
  The class hierarchy \<^verbatim>\<open>Agent\<close> > \<^verbatim>\<open>SinglePreferrer\<close> > \<^verbatim>\<open>Hospital\<close>, \<^verbatim>\<open>Resident\<close> and
  \<^verbatim>\<open>Agent\<close> > \<^verbatim>\<open>JointPreferrer\<close> > \<^verbatim>\<open>Couple\<close> as record extensions.
  \<^verbatim>\<open>preference_function\<close> is \<open>None\<close> for the nil hospital and for the members of a
  couple, as in the source. A resident's \<^verbatim>\<open>couple\<close> is the couple's uid. The runtime
  class \<^verbatim>\<open>NilHospital\<close> (it overrides two methods and has no field of its own) is the flag
  \<open>nil_class\<close>.
\<close>

definition NIL_HOSPITAL_UID :: int where
  "NIL_HOSPITAL_UID = 999999"

definition NIL_HOSPITAL_SYMBOL :: string where
  "NIL_HOSPITAL_SYMBOL = ''-1''"

record Agent =
  uid :: int

record SinglePreferrer = Agent +
  preference_function :: "ListPreferenceFunction option"

record Hospital = SinglePreferrer +
  capacity :: "int option"
  nil_class :: bool

record Resident = SinglePreferrer +
  couple :: "int option"


definition Agent_eq :: "'a Agent_scheme \<Rightarrow> 'b Agent_scheme \<Rightarrow> bool" where
  "Agent_eq a b = (uid a = uid b)"

definition NIL_HOSPITAL :: Hospital where
  "NIL_HOSPITAL = \<lparr>uid = NIL_HOSPITAL_UID, preference_function = None,
                    capacity = Some 10, nil_class = True\<rparr>"

text \<open>
  The methods of \<^verbatim>\<open>SinglePreferrer\<close> delegate to the preference function; on \<open>None\<close> the
  attribute access raises.
\<close>

definition SP_get_ordering :: "'a SinglePreferrer_scheme \<Rightarrow> error + int list" where
  "SP_get_ordering a =
     (case preference_function a of None \<Rightarrow> Inl AttributeError
      | Some pf \<Rightarrow> Inr (get_ordering pf))"

definition SP_get_rank :: "'a SinglePreferrer_scheme \<Rightarrow> int \<Rightarrow> error + nat" where
  "SP_get_rank a u =
     (case preference_function a of None \<Rightarrow> Inl AttributeError
      | Some pf \<Rightarrow> get_rank pf u)"

definition SP_get_all_weakly_preferred :: "'a SinglePreferrer_scheme \<Rightarrow> int \<Rightarrow> error + int list" where
  "SP_get_all_weakly_preferred a u =
     (case preference_function a of None \<Rightarrow> Inl AttributeError
      | Some pf \<Rightarrow> get_all_weakly_preferred pf u)"


subsection \<open>Agents as dictionary keys\<close>

text \<open>
  A Python dictionary finds a key by its hash and then by \<^verbatim>\<open>==\<close>. The objects the program
  uses as keys are residents, hospitals and couples; \<open>agent_obj\<close> is their union, and a
  dictionary is the list of its entries. \<open>dict_setitem\<close> keeps the key object already
  stored when an equal key is assigned again, as Python does.
\<close>

record ListJointPreferenceFunction =
  joint_internal_list :: "(int \<times> int) list"
  cardinality :: nat

record JointPreferrer = Agent +
  joint_preference_function :: ListJointPreferenceFunction
  residents :: "Resident list"

record Couple = JointPreferrer +
  ranked_hospitals :: "int \<rightharpoonup> int list"
  size_c :: nat







section \<open>DIMACS clauses and the constraints buffer\<close>

text \<open>\<^verbatim>\<open>str\<close> of an integer: decimal digits, with a leading minus sign when negative.\<close>

definition digit_char :: "nat \<Rightarrow> char" where
  "digit_char d = ''0123456789'' ! d"

fun str_nat :: "nat \<Rightarrow> string" where
  "str_nat n = (if n < 10 then [digit_char n] else str_nat (n div 10) @ [digit_char (n mod 10)])"

declare str_nat.simps [simp del]

definition str_int :: "int \<Rightarrow> string" where
  "str_int i = (if i < 0 then CHR ''-'' # str_nat (nat (- i)) else str_nat (nat i))"

fun join :: "string \<Rightarrow> string list \<Rightarrow> string" where
  "join sep [] = []"
| "join sep [x] = x"
| "join sep (x # y # ys) = x @ sep @ join sep (y # ys)"

record DIMACSClause =
  var_list :: "int list"

text \<open>The constructor asserts that the literal list is not empty.\<close>

definition DIMACSClause_init :: "int list \<Rightarrow> error + DIMACSClause" where
  "DIMACSClause_init vl =
     (if length vl > 0 then Inr \<lparr>var_list = vl\<rparr> else Inl AssertionError)"

definition render :: "DIMACSClause \<Rightarrow> string" where
  "render c = join '' '' (map str_int (var_list c)) @ '' 0''"

text \<open>
  Files: a file system maps a file name to its content. Opening with mode \<^verbatim>\<open>'w'\<close>
  truncates, mode \<^verbatim>\<open>'a'\<close> appends (creating the file when it is missing).
\<close>

type_synonym filesystem = "string \<rightharpoonup> string"

definition newline :: char where
  "newline = CHR 0x0A"

definition fs_truncate_write :: "filesystem \<Rightarrow> string \<Rightarrow> string \<Rightarrow> filesystem" where
  "fs_truncate_write fs name s = fs(name \<mapsto> s)"

definition fs_append :: "filesystem \<Rightarrow> string \<Rightarrow> string \<Rightarrow> filesystem" where
  "fs_append fs name s =
     fs(name \<mapsto> (case fs name of None \<Rightarrow> [] | Some old \<Rightarrow> old) @ s)"



definition render_lines :: "DIMACSClause list \<Rightarrow> string" where
  "render_lines cs = concat (map (\<lambda>item. render item @ [newline]) cs)"






section \<open>Writing a matching\<close>

text \<open>
  \<^verbatim>\<open>print_matching\<close> takes the matching dictionary; the model takes its entries in the
  order \<^verbatim>\<open>matching.keys()\<close> yields them. The file is opened with mode \<^verbatim>\<open>'w'\<close>.
\<close>

definition matching_line :: "int \<times> int \<Rightarrow> string" where
  "matching_line e =
     (if snd e = NIL_HOSPITAL_UID
      then ''r '' @ str_int (fst e) @ '' '' @ NIL_HOSPITAL_SYMBOL @ [newline]
      else ''r '' @ str_int (fst e) @ '' '' @ str_int (snd e) @ [newline])"

definition print_matching ::
  "(int \<times> int) list \<Rightarrow> filesystem \<Rightarrow> string \<Rightarrow> string option \<Rightarrow> filesystem" where
  "print_matching matching fs name header =
     (let h = (case header of None \<Rightarrow> [] | Some hdr \<Rightarrow> ''# '' @ hdr @ [newline]) in
      if length matching = 0
      then fs_truncate_write fs name (h @ ''m 0'' @ [newline])
      else fs_truncate_write fs name
             (h @ ''m 1'' @ [newline] @ concat (map matching_line matching)))"

text \<open>The lines of a text: the pieces between newline characters.\<close>

fun lines_of :: "string \<Rightarrow> string list" where
  "lines_of [] = []"
| "lines_of (c # cs) =
     (if c = newline then [] # lines_of cs
      else (case lines_of cs of [] \<Rightarrow> [[c]] | l # ls \<Rightarrow> (c # l) # ls))"

text \<open>One line of the matching file without its newline, as the format of section 6 states it.\<close>

definition matching_entry :: "int \<times> int \<Rightarrow> string" where
  "matching_entry e =
     ''r '' @ str_int (fst e) @ '' '' @ (if snd e = NIL_HOSPITAL_UID then ''-1'' else str_int (snd e))"



section \<open>Couples and the global dictionaries\<close>

text \<open>
  The module keeps three global dictionaries, written by the constructors of
  \<^verbatim>\<open>Hospital\<close>, \<^verbatim>\<open>Resident\<close> and \<^verbatim>\<open>Couple\<close>. Their keys are uids. When the module is
  loaded, \<^verbatim>\<open>NIL_HOSPITAL = NilHospital()\<close> registers the nil hospital.
\<close>

record Globals =
  resident_dict :: "int \<rightharpoonup> Resident"
  hospital_dict :: "int \<rightharpoonup> Hospital"
  couple_dict :: "int \<rightharpoonup> Couple"

definition module_globals :: Globals where
  "module_globals =
     \<lparr>resident_dict = Map.empty,
      hospital_dict = [NIL_HOSPITAL_UID \<mapsto> NIL_HOSPITAL],
      couple_dict = Map.empty\<rparr>"

definition bind_err :: "error + 'a \<Rightarrow> ('a \<Rightarrow> error + 'b) \<Rightarrow> error + 'b" where
  "bind_err m f = (case m of Inl e \<Rightarrow> Inl e | Inr x \<Rightarrow> f x)"

definition Hospital_init ::
  "ListPreferenceFunction option \<Rightarrow> int \<Rightarrow> int option \<Rightarrow> Globals \<Rightarrow> Hospital \<times> Globals" where
  "Hospital_init pf u cap G =
     (let self = \<lparr>uid = u, preference_function = pf, capacity = cap, nil_class = False\<rparr>
      in (self, G\<lparr>hospital_dict := (hospital_dict G)(u \<mapsto> self)\<rparr>))"

definition Resident_init ::
  "int \<Rightarrow> ListPreferenceFunction option \<Rightarrow> Globals \<Rightarrow> Resident \<times> Globals" where
  "Resident_init u pf G =
     (let self = \<lparr>uid = u, preference_function = pf, couple = None\<rparr>
      in (self, G\<lparr>resident_dict := (resident_dict G)(u \<mapsto> self)\<rparr>))"

text \<open>
  \<^verbatim>\<open>Couple.__init__\<close>. The parameter \<open>set_order\<close> is \<^verbatim>\<open>list(set(xs))\<close>: the order in which
  the Python runtime iterates over the set built from the list \<open>xs\<close>, which the language
  leaves open. The assignment \<^verbatim>\<open>resident.couple = self\<close> changes the resident objects, which
  the caller \<^verbatim>\<open>from_file\<close> has just constructed and which are therefore the ones registered
  in \<^verbatim>\<open>resident_dict\<close> under their uids; the model writes the changed residents back in
  the order of the loop. \<^verbatim>\<open>ranked_hospitals\<close> is keyed by the residents, that is by uid.
\<close>

definition Couple_init ::
  "(int list \<Rightarrow> int list) \<Rightarrow> ListJointPreferenceFunction \<Rightarrow> int \<Rightarrow> Resident list \<Rightarrow> Globals
     \<Rightarrow> error + Couple \<times> Globals" where
  "Couple_init set_order pf u rs G =
     (if length rs \<noteq> cardinality pf then Inl AssertionError
      else
        let rs' = map (\<lambda>r. r\<lparr>couple := Some u\<rparr>) rs;
            r0_ranked = map fst (joint_internal_list pf);
            r1_ranked = map snd (joint_internal_list pf)
        in (case rs' of
              r0 # r1 # _ \<Rightarrow>
                (let self = \<lparr>uid = u, joint_preference_function = pf, residents = rs',
                        ranked_hospitals =
                          [uid r0 \<mapsto> set_order r0_ranked, uid r1 \<mapsto> set_order r1_ranked],
                        size_c = 2\<rparr>
                 in Inr (self,
                      G\<lparr>couple_dict := (couple_dict G)(u \<mapsto> self),
                        resident_dict :=
                          fold (\<lambda>r d. d(uid r \<mapsto> r)) rs' (resident_dict G)\<rparr>))
            | _ \<Rightarrow> Inl IndexError))"

definition C_get_ordering :: "Couple \<Rightarrow> (int \<times> int) list" where
  "C_get_ordering c = joint_internal_list (joint_preference_function c)"

text \<open>
  \<^verbatim>\<open>get_ranked_hospitals(member)\<close>: without a member the joint ordering, with a member the
  entry of \<^verbatim>\<open>ranked_hospitals\<close>.
\<close>

definition get_ranked_hospitals_pairs :: "Couple \<Rightarrow> (int \<times> int) list" where
  "get_ranked_hospitals_pairs c = C_get_ordering c"

definition get_ranked_hospitals :: "Couple \<Rightarrow> Resident \<Rightarrow> error + int list" where
  "get_ranked_hospitals c member =
     (case ranked_hospitals c (uid member) of None \<Rightarrow> Inl KeyError | Some l \<Rightarrow> Inr l)"

text \<open>
  The list the specification describes: what remains of a list when every element is kept
  at its first occurrence only.
\<close>

fun first_occurrence_dedup :: "int list \<Rightarrow> int list" where
  "first_occurrence_dedup [] = []"
| "first_occurrence_dedup (x # xs) = x # filter (\<lambda>y. y \<noteq> x) (first_occurrence_dedup xs)"

text \<open>
  One admissible set order: ascending. CPython keeps a small set of integers in a table of
  eight slots and puts a non-negative integer below eight into the slot of its value, so
  this is the order \<^verbatim>\<open>list(set([5, 3]))\<close> has there.
\<close>

definition ascending_set_order :: "int list \<Rightarrow> int list" where
  "ascending_set_order xs = sort (remdups xs)"

section \<open>Loading a problem file\<close>

record ProblemInstance =
  hospitals :: "Hospital list"
  singles :: "Resident list"
  couples :: "Couple list"
  matching :: "(int \<times> int) list"

definition ProblemInstance_init ::
  "Hospital list \<Rightarrow> Resident list \<Rightarrow> Couple list \<Rightarrow> ProblemInstance" where
  "ProblemInstance_init hs ss cs = \<lparr>hospitals = hs, singles = ss, couples = cs, matching = []\<rparr>"

text \<open>\<^verbatim>\<open>str.split()\<close>: the maximal runs of characters that are not whitespace.\<close>

definition is_space :: "char \<Rightarrow> bool" where
  "is_space c = (c \<in> set [CHR '' '', CHR 0x09, CHR 0x0A, CHR 0x0B, CHR 0x0C, CHR 0x0D])"

fun split_acc :: "string \<Rightarrow> string \<Rightarrow> string list" where
  "split_acc [] cur = (if cur = [] then [] else [cur])"
| "split_acc (c # cs) cur =
     (if is_space c then (if cur = [] then split_acc cs [] else cur # split_acc cs [])
      else split_acc cs (cur @ [c]))"

definition py_split :: "string \<Rightarrow> string list" where
  "py_split s = split_acc s []"

text \<open>\<^verbatim>\<open>int(token)\<close> on a token without whitespace: an optional sign and at least one digit.\<close>

definition digit_of_char :: "char \<Rightarrow> nat option" where
  "digit_of_char c =
     map_of [(CHR ''0'', 0), (CHR ''1'', 1), (CHR ''2'', 2), (CHR ''3'', 3), (CHR ''4'', 4),
             (CHR ''5'', 5), (CHR ''6'', 6), (CHR ''7'', 7), (CHR ''8'', 8), (CHR ''9'', 9)] c"

fun digits_value :: "string \<Rightarrow> nat \<Rightarrow> nat option" where
  "digits_value [] acc = Some acc"
| "digits_value (c # cs) acc =
     (case digit_of_char c of None \<Rightarrow> None | Some d \<Rightarrow> digits_value cs (10 * acc + d))"

definition py_int :: "string \<Rightarrow> error + int" where
  "py_int s =
     (let (negative, ds) =
            (case s of
               c # rest \<Rightarrow>
                 if c = CHR ''-'' then (True, rest)
                 else if c = CHR ''+'' then (False, rest)
                 else (False, s)
             | [] \<Rightarrow> (False, s))
      in if ds = [] then Inl ValueError
         else (case digits_value ds 0 of
                 None \<Rightarrow> Inl ValueError
               | Some n \<Rightarrow> Inr (if negative then - int n else int n)))"

definition item_at :: "'a list \<Rightarrow> nat \<Rightarrow> error + 'a" where
  "item_at xs i = (if i < length xs then Inr (xs ! i) else Inl IndexError)"

text \<open>\<^verbatim>\<open>xs[-1]\<close>.\<close>

definition last_item :: "'a list \<Rightarrow> error + 'a" where
  "last_item xs = (if xs = [] then Inl IndexError else Inr (last xs))"

fun ints_of :: "string list \<Rightarrow> error + int list" where
  "ints_of [] = Inr []"
| "ints_of (t # ts) =
     bind_err (py_int t) (\<lambda>i. bind_err (ints_of ts) (\<lambda>is. Inr (i # is)))"

definition starts_with :: "string \<Rightarrow> char \<Rightarrow> bool" where
  "starts_with line c = (case line of [] \<Rightarrow> False | x # _ \<Rightarrow> x = c)"

definition hospital_token :: "string \<Rightarrow> error + int" where
  "hospital_token t = (if t \<noteq> NIL_HOSPITAL_SYMBOL then py_int t else Inr NIL_HOSPITAL_UID)"

text \<open>
  The pairs of a couple line: the loop runs over the indices from 4 and skips the odd
  ones, so it reads the tokens two at a time and a last token without a partner is an
  index error.
\<close>

fun pairs_of :: "string list \<Rightarrow> error + (int \<times> int) list" where
  "pairs_of [] = Inr []"
| "pairs_of [a] = bind_err (hospital_token a) (\<lambda>x. Inl IndexError)"
| "pairs_of (a # b # ts) =
     bind_err (hospital_token a) (\<lambda>x.
     bind_err (hospital_token b) (\<lambda>y.
     bind_err (pairs_of ts) (\<lambda>ps. Inr ((x, y) # ps))))"

text \<open>
  The state of the loop over the lines. \<open>local_resident_dict\<close>, \<open>local_hospital_dict\<close>
  and \<open>local_couple_dict\<close> are the three dictionaries \<^verbatim>\<open>from_file\<close> creates as local
  variables and tests for duplicates; no statement of \<^verbatim>\<open>from_file\<close> stores into them.
  The constructors store into the global dictionaries of the module.
\<close>

record from_file_state =
  local_resident_dict :: "int \<rightharpoonup> Resident"
  local_hospital_dict :: "int \<rightharpoonup> Hospital"
  local_couple_dict :: "int \<rightharpoonup> Couple"
  fs_hospitals :: "Hospital list"
  fs_singles :: "Resident list"
  fs_couples :: "Couple list"
  fs_globals :: Globals

definition resident_line :: "bool \<Rightarrow> string list \<Rightarrow> from_file_state \<Rightarrow> error + from_file_state" where
  "resident_line append_nil items st =
     bind_err (item_at items 1) (\<lambda>t1.
     bind_err (py_int t1) (\<lambda>u.
     if u \<in> dom (local_resident_dict st) then Inl (Exception ''duplicate resident'')
     else
     bind_err (ints_of (drop 2 items)) (\<lambda>rol.
     bind_err
       (if append_nil then
          bind_err (last_item rol) (\<lambda>l.
          let rol1 = (if l = -1 then butlast rol else rol) in
          bind_err (last_item rol1) (\<lambda>l1.
          Inr (if l1 \<noteq> NIL_HOSPITAL_UID then rol1 @ [NIL_HOSPITAL_UID] else rol1)))
        else Inr rol) (\<lambda>rol2.
     let (s, G) = Resident_init u (Some \<lparr>internal_list = rol2\<rparr>) (fs_globals st)
     in Inr (st\<lparr>fs_singles := fs_singles st @ [s], fs_globals := G\<rparr>)))))"

definition program_line :: "string list \<Rightarrow> from_file_state \<Rightarrow> error + from_file_state" where
  "program_line items st =
     bind_err (item_at items 1) (\<lambda>t1.
     bind_err (py_int t1) (\<lambda>u.
     if u \<in> dom (local_hospital_dict st) then Inl (Exception ''duplicate program'')
     else
     bind_err (ints_of (drop 3 items)) (\<lambda>rol.
     bind_err (item_at items 2) (\<lambda>t2.
     bind_err (py_int t2) (\<lambda>cap.
     let (h, G) = Hospital_init (Some \<lparr>internal_list = rol\<rparr>) u (Some cap) (fs_globals st)
     in Inr (st\<lparr>fs_hospitals := fs_hospitals st @ [h], fs_globals := G\<rparr>))))))"

definition couple_line ::
  "(int list \<Rightarrow> int list) \<Rightarrow> bool \<Rightarrow> string list \<Rightarrow> from_file_state \<Rightarrow> error + from_file_state" where
  "couple_line set_order append_nil items st =
     bind_err (item_at items 1) (\<lambda>t1.
     bind_err (py_int t1) (\<lambda>u.
     if u \<in> dom (local_couple_dict st) then Inl (Exception ''duplicate couple'')
     else
     bind_err (item_at items 2) (\<lambda>t2.
     bind_err (py_int t2) (\<lambda>u0.
     if u0 \<in> dom (local_resident_dict st)
     then Inl (Exception ''resident in couple already defined'')
     else
     bind_err (item_at items 3) (\<lambda>t3.
     bind_err (py_int t3) (\<lambda>u1.
     if u1 \<in> dom (local_resident_dict st)
     then Inl (Exception ''resident in couple already defined'')
     else
     bind_err (pairs_of (drop 4 items)) (\<lambda>rol.
     bind_err
       (if append_nil then
          bind_err (last_item rol) (\<lambda>l.
          Inr (if l \<noteq> (NIL_HOSPITAL_UID, NIL_HOSPITAL_UID)
               then rol @ [(NIL_HOSPITAL_UID, NIL_HOSPITAL_UID)] else rol))
        else Inr rol) (\<lambda>rol2.
     let (r0, G0) = Resident_init u0 None (fs_globals st);
         (r1, G1) = Resident_init u1 None G0
     in bind_err
          (Couple_init set_order \<lparr>joint_internal_list = rol2, cardinality = 2\<rparr> u [r0, r1] G1)
          (\<lambda>(c, G2). Inr (st\<lparr>fs_couples := fs_couples st @ [c], fs_globals := G2\<rparr>))))))))))"

definition from_file_line ::
  "(int list \<Rightarrow> int list) \<Rightarrow> bool \<Rightarrow> string \<Rightarrow> from_file_state \<Rightarrow> error + from_file_state" where
  "from_file_line set_order append_nil line st =
     (if starts_with line CHR ''#'' \<or> starts_with line CHR '' ''
         \<or> starts_with line CHR 0x0A \<or> starts_with line CHR 0x0D
      then Inr st
      else
        let items = py_split line in
        if starts_with line CHR ''r'' then resident_line append_nil items st
        else if starts_with line CHR ''p'' then program_line items st
        else if starts_with line CHR ''c'' then couple_line set_order append_nil items st
        else Inl (Exception ''line not readable''))"

fun from_file_loop ::
  "(int list \<Rightarrow> int list) \<Rightarrow> bool \<Rightarrow> string list \<Rightarrow> from_file_state \<Rightarrow> error + from_file_state" where
  "from_file_loop set_order append_nil [] st = Inr st"
| "from_file_loop set_order append_nil (line # rest) st =
     bind_err (from_file_line set_order append_nil line st)
       (from_file_loop set_order append_nil rest)"

text \<open>
  \<^verbatim>\<open>from_file\<close> on the lines of the file; it returns the instance and the global
  dictionaries as the constructors left them.
\<close>

definition from_file ::
  "(int list \<Rightarrow> int list) \<Rightarrow> string list \<Rightarrow> bool \<Rightarrow> Globals \<Rightarrow> error + ProblemInstance \<times> Globals" where
  "from_file set_order file_lines append_nil G =
     bind_err
       (from_file_loop set_order append_nil file_lines
          \<lparr>local_resident_dict = Map.empty, local_hospital_dict = Map.empty,
           local_couple_dict = Map.empty,
           fs_hospitals = [], fs_singles = [], fs_couples = [], fs_globals = G\<rparr>)
       (\<lambda>st. Inr (ProblemInstance_init (fs_hospitals st) (fs_singles st) (fs_couples st),
                   fs_globals st))"

section \<open>Observations used in the statements\<close>

text \<open>The list \<^verbatim>\<open>get_ranked_hospitals\<close> returns for the member at position \<open>i\<close> of a freshly
  constructed couple; the uids of the entities a load produced; the four errors with which
  \<^verbatim>\<open>from_file\<close> reports a repeated uid; the local dictionaries being empty.\<close>

definition ranked_hospitals_of_member ::
  "(int list \<Rightarrow> int list) \<Rightarrow> ListJointPreferenceFunction \<Rightarrow> int \<Rightarrow> Resident list \<Rightarrow> Globals
     \<Rightarrow> nat \<Rightarrow> error + int list" where
  "ranked_hospitals_of_member set_order pf u rs G i =
     bind_err (Couple_init set_order pf u rs G) (\<lambda>(c, G').
     bind_err (item_at (residents c) i) (get_ranked_hospitals c))"

definition loaded_uids ::
  "error + ProblemInstance \<times> Globals \<Rightarrow> error + (int list \<times> int list \<times> int list \<times> int list list)" where
  "loaded_uids res =
     bind_err res (\<lambda>(inst, G).
       Inr (map uid (hospitals inst), map uid (singles inst), map uid (couples inst),
            map (\<lambda>c. map uid (residents c)) (couples inst)))"

definition duplicate_error :: "error \<Rightarrow> bool" where
  "duplicate_error e =
     (e \<in> {Exception ''duplicate resident'', Exception ''duplicate program'',
            Exception ''duplicate couple'', Exception ''resident in couple already defined''})"

definition locals_empty :: "from_file_state \<Rightarrow> bool" where
  "locals_empty st =
     (local_resident_dict st = Map.empty \<and> local_hospital_dict st = Map.empty
      \<and> local_couple_dict st = Map.empty)"

section \<open>The SAT encoder\<close>

text \<open>
  \<^verbatim>\<open>solve_sat\<close> numbers its variables with a \<^verbatim>\<open>UIDAllocator(first_uid=1)\<close>, records a name
  for each in \<^verbatim>\<open>variable_registry\<close>, keeps the numbers in the nested dictionaries
  \<^verbatim>\<open>res_match\<close>, \<^verbatim>\<open>q\<close> and \<^verbatim>\<open>cpref\<close> (keyed by agents, that is by uid), and appends clauses
  to the constraints buffer. The state of the model holds these; \<open>emitted\<close> is the list of
  the clauses appended so far. An exception of any kind is the result \<open>None\<close>.

  A name of the registry is kept in structured form; \<open>render_name\<close> is the string the
  source stores.
\<close>

datatype var_name =
    XR int int
  | XC int int int
  | QN int nat nat
  | CPREF int nat

fun render_name :: "var_name \<Rightarrow> string" where
  "render_name (XR r h) = ''xr_'' @ str_int r @ '','' @ str_int h"
| "render_name (XC c r h) = ''xc_'' @ str_int c @ '','' @ str_int r @ '','' @ str_int h"
| "render_name (QN h i j) = ''q_'' @ str_int h @ '','' @ str_int (int i) @ '','' @ str_int (int j)"
| "render_name (CPREF c n) = ''cpref_'' @ str_int c @ '','' @ str_int (int n)"

record sat_state =
  last_uid :: int
  variable_registry :: "int \<rightharpoonup> var_name"
  res_match :: "int \<rightharpoonup> (int \<rightharpoonup> int)"
  q :: "int \<rightharpoonup> (nat \<rightharpoonup> (nat \<rightharpoonup> int))"
  cpref :: "int \<rightharpoonup> (nat \<rightharpoonup> int)"
  emitted :: "int list list"

definition initial_sat_state :: sat_state where
  "initial_sat_state =
     \<lparr>last_uid = 0, variable_registry = Map.empty, res_match = Map.empty,
      q = Map.empty, cpref = Map.empty, emitted = []\<rparr>"

definition ok :: "error + 'a \<Rightarrow> 'a option" where
  "ok r = (case r of Inl e \<Rightarrow> None | Inr x \<Rightarrow> Some x)"

text \<open>A loop over a list whose body may raise, and a list comprehension whose body may raise.\<close>

fun foldM :: "('a \<Rightarrow> 's \<Rightarrow> 's option) \<Rightarrow> 'a list \<Rightarrow> 's \<Rightarrow> 's option" where
  "foldM f [] s = Some s"
| "foldM f (x # xs) s = (case f x s of None \<Rightarrow> None | Some s' \<Rightarrow> foldM f xs s')"

fun mapM :: "('a \<Rightarrow> 'b option) \<Rightarrow> 'a list \<Rightarrow> 'b list option" where
  "mapM f [] = Some []"
| "mapM f (x # xs) =
     (case f x of None \<Rightarrow> None
      | Some y \<Rightarrow> (case mapM f xs of None \<Rightarrow> None | Some ys \<Rightarrow> Some (y # ys)))"

definition concatM :: "('a \<Rightarrow> 'b list option) \<Rightarrow> 'a list \<Rightarrow> 'b list option" where
  "concatM f xs = map_option concat (mapM f xs)"

text \<open>
  \<^verbatim>\<open>constraints.append(DIMACSClause(...))\<close> for each clause of a list: the constructor
  asserts that a clause has a literal.
\<close>

definition append_clauses :: "int list list \<Rightarrow> sat_state \<Rightarrow> sat_state option" where
  "append_clauses cs st =
     (if [] \<in> set cs then None else Some (st\<lparr>emitted := emitted st @ cs\<rparr>))"

text \<open>The lookups \<^verbatim>\<open>res_match[r][h]\<close>, \<^verbatim>\<open>q[h][i][j]\<close> and \<^verbatim>\<open>cpref[c][k]\<close>.\<close>

definition rm :: "sat_state \<Rightarrow> int \<Rightarrow> int \<Rightarrow> int option" where
  "rm st r h = (case res_match st r of None \<Rightarrow> None | Some d \<Rightarrow> d h)"

definition qv :: "sat_state \<Rightarrow> int \<Rightarrow> nat \<Rightarrow> nat \<Rightarrow> int option" where
  "qv st h i j =
     (case q st h of None \<Rightarrow> None
      | Some d \<Rightarrow> (case d i of None \<Rightarrow> None | Some row \<Rightarrow> row j))"

definition cp :: "sat_state \<Rightarrow> int \<Rightarrow> nat \<Rightarrow> int option" where
  "cp st c k = (case cpref st c of None \<Rightarrow> None | Some d \<Rightarrow> d k)"

text \<open>
  \<^verbatim>\<open>res_match[r][h] = var_uid_allocator.allocate_uid()\<close> followed by the registry entry.
\<close>

definition set_res_match :: "int \<Rightarrow> int \<Rightarrow> var_name \<Rightarrow> sat_state \<Rightarrow> sat_state option" where
  "set_res_match r h name st =
     (case res_match st r of
        None \<Rightarrow> None
      | Some d \<Rightarrow>
          let v = last_uid st + 1 in
          Some (st\<lparr>last_uid := v,
                   res_match := (res_match st)(r \<mapsto> d(h \<mapsto> v)),
                   variable_registry := (variable_registry st)(v \<mapsto> name)\<rparr>))"

definition set_q :: "int \<Rightarrow> nat \<Rightarrow> nat \<Rightarrow> sat_state \<Rightarrow> sat_state option" where
  "set_q h i j st =
     (case q st h of
        None \<Rightarrow> None
      | Some d \<Rightarrow>
          (case d i of
             None \<Rightarrow> None
           | Some row \<Rightarrow>
               let v = last_uid st + 1 in
               Some (st\<lparr>last_uid := v,
                        q := (q st)(h \<mapsto> d(i \<mapsto> row(j \<mapsto> v))),
                        variable_registry := (variable_registry st)(v \<mapsto> QN h i j)\<rparr>)))"

definition set_cpref :: "int \<Rightarrow> nat \<Rightarrow> sat_state \<Rightarrow> sat_state option" where
  "set_cpref c k st =
     (case cpref st c of
        None \<Rightarrow> None
      | Some d \<Rightarrow>
          let v = last_uid st + 1 in
          Some (st\<lparr>last_uid := v,
                   cpref := (cpref st)(c \<mapsto> d(k \<mapsto> v)),
                   variable_registry := (variable_registry st)(v \<mapsto> CPREF c k)\<rparr>))"

subsection \<open>Matching variables and clauses\<close>

text \<open>\<^verbatim>\<open>res_match[resident][hospital_dict[h_uid]]\<close>.\<close>

definition rm_via :: "Globals \<Rightarrow> sat_state \<Rightarrow> int \<Rightarrow> int \<Rightarrow> int option" where
  "rm_via G st r h_uid =
     (case hospital_dict G h_uid of None \<Rightarrow> None | Some h \<Rightarrow> rm st r (uid h))"

definition single_vars :: "Globals \<Rightarrow> Resident \<Rightarrow> sat_state \<Rightarrow> sat_state option" where
  "single_vars G resident st =
     (if uid resident \<in> dom (res_match st) then None
      else do {
        olist \<leftarrow> ok (SP_get_ordering resident);
        st2 \<leftarrow> foldM (\<lambda>hospital_uid s. do {
                  hospital \<leftarrow> hospital_dict G hospital_uid;
                  set_res_match (uid resident) (uid hospital)
                    (XR (uid resident) (uid hospital)) s })
                olist (st\<lparr>res_match := (res_match st)(uid resident \<mapsto> Map.empty)\<rparr>);
        st3 \<leftarrow> set_res_match (uid resident) (uid NIL_HOSPITAL)
                 (XR (uid resident) NIL_HOSPITAL_UID) st2;
        lits \<leftarrow> mapM (rm_via G st3 (uid resident)) olist;
        nil \<leftarrow> rm st3 (uid resident) (uid NIL_HOSPITAL);
        append_clauses [lits @ [nil]] st3 })"

definition couple_member_vars ::
  "Globals \<Rightarrow> Couple \<Rightarrow> Resident \<Rightarrow> sat_state \<Rightarrow> sat_state option" where
  "couple_member_vars G c resident st =
     (if uid resident \<in> dom (res_match st) then None
      else do {
        ranked \<leftarrow> ok (get_ranked_hospitals c resident);
        st2 \<leftarrow> foldM (\<lambda>h_uid s. do {
                  h \<leftarrow> hospital_dict G h_uid;
                  set_res_match (uid resident) (uid h)
                    (XC (uid c) (uid resident) h_uid) s })
                ranked (st\<lparr>res_match := (res_match st)(uid resident \<mapsto> Map.empty)\<rparr>);
        st3 \<leftarrow> set_res_match (uid resident) (uid NIL_HOSPITAL)
                 (XC (uid c) (uid resident) NIL_HOSPITAL_UID) st2;
        lits \<leftarrow> mapM (rm_via G st3 (uid resident)) ranked;
        nil \<leftarrow> rm st3 (uid resident) (uid NIL_HOSPITAL);
        append_clauses [lits @ [nil]] st3 })"

definition couple_vars :: "Globals \<Rightarrow> Couple \<Rightarrow> sat_state \<Rightarrow> sat_state option" where
  "couple_vars G c st = foldM (couple_member_vars G c) (residents c) st"

text \<open>\<^verbatim>\<open>combinations(iterable, 2)\<close>.\<close>

fun combinations2 :: "'a list \<Rightarrow> ('a \<times> 'a) list" where
  "combinations2 [] = []"
| "combinations2 (x # xs) = map (Pair x) xs @ combinations2 xs"

definition at_most_one_clauses ::
  "Globals \<Rightarrow> sat_state \<Rightarrow> int \<Rightarrow> int list \<Rightarrow> int list list option" where
  "at_most_one_clauses G st r h_uids =
     mapM (\<lambda>(h1_uid, h2_uid). do {
             a \<leftarrow> rm_via G st r h1_uid;
             b \<leftarrow> rm_via G st r h2_uid;
             Some [- a, - b] })
       (combinations2 h_uids)"

definition singles_at_most_one :: "Globals \<Rightarrow> ProblemInstance \<Rightarrow> sat_state \<Rightarrow> int list list option" where
  "singles_at_most_one G inst st =
     concatM (\<lambda>resident. do {
                olist \<leftarrow> ok (SP_get_ordering resident);
                at_most_one_clauses G st (uid resident) (olist @ [NIL_HOSPITAL_UID]) })
       (singles inst)"

definition couples_at_most_one ::
  "(int list \<Rightarrow> int list) \<Rightarrow> Globals \<Rightarrow> ProblemInstance \<Rightarrow> sat_state \<Rightarrow> int list list option" where
  "couples_at_most_one set_order G inst st =
     concatM (\<lambda>c.
        concatM (\<lambda>resident. do {
                   ranked \<leftarrow> ok (get_ranked_hospitals c resident);
                   at_most_one_clauses G st (uid resident)
                     (set_order (ranked @ [NIL_HOSPITAL_UID])) })
          (residents c))
       (couples inst)"

subsection \<open>Counter variables\<close>

text \<open>
  The clauses of row \<open>i\<close> of a hospital's counter. \<open>y\<close> is the matching variable of the
  resident at position \<open>i - 1\<close> of the hospital's ordering, \<open>prev\<close> and \<open>cur\<close> are the
  dictionaries \<^verbatim>\<open>q[h][i - 1]\<close> and \<^verbatim>\<open>q[h][i]\<close>.
\<close>

definition q_width :: "nat \<Rightarrow> int \<Rightarrow> nat" where
  "q_width i cap = nat (min (int i + 1) (cap + 2))"

definition q_step_clauses ::
  "int \<Rightarrow> (nat \<rightharpoonup> int) \<Rightarrow> (nat \<rightharpoonup> int) \<Rightarrow> nat \<Rightarrow> nat \<Rightarrow> int list list option" where
  "q_step_clauses y prev cur i j =
     (if j = 0 then do {
        c0 \<leftarrow> cur 0;
        p0 \<leftarrow> prev 0;
        Some [[- y, - c0], [p0, - c0], [y, - p0, c0]] }
      else if j = i then do {
        cj \<leftarrow> cur j;
        pj1 \<leftarrow> prev (j - 1);
        Some [[y, - cj], [pj1, - cj], [- y, - pj1, cj]] }
      else do {
        pj1 \<leftarrow> prev (j - 1);
        cj \<leftarrow> cur j;
        pj \<leftarrow> prev j;
        Some [[- y, - pj1, cj], [y, - pj, cj], [y, pj, - cj], [- y, pj1, - cj]] })"

definition q_row_clauses ::
  "int \<Rightarrow> (nat \<rightharpoonup> int) \<Rightarrow> (nat \<rightharpoonup> int) \<Rightarrow> nat \<Rightarrow> int \<Rightarrow> int list list option" where
  "q_row_clauses y prev cur i cap = do {
     cs \<leftarrow> (if i = 1 then do {
               q0 \<leftarrow> cur 0;
               q1 \<leftarrow> cur 1;
               Some [[y, q0], [- y, q1], [- y, - q0], [y, - q1]] }
            else concatM (q_step_clauses y prev cur i) [0..<q_width i cap]);
     over \<leftarrow> (if int i \<ge> cap + 1
              then (if cap + 1 < 0 then None
                    else do { v \<leftarrow> cur (nat (cap + 1)); Some [[- v]] })
              else Some []);
     Some (cs @ over) }"

definition q_row ::
  "Globals \<Rightarrow> Hospital \<Rightarrow> int list \<Rightarrow> int \<Rightarrow> nat \<Rightarrow> sat_state \<Rightarrow> sat_state option" where
  "q_row G h olist cap i st =
     (if i = 0 then Some st
      else do {
        d \<leftarrow> q st (uid h);
        st2 \<leftarrow> foldM (set_q (uid h) i) [0..<q_width i cap]
                 (st\<lparr>q := (q st)(uid h \<mapsto> d(i \<mapsto> Map.empty))\<rparr>);
        resident \<leftarrow> resident_dict G (olist ! (i - 1));
        y \<leftarrow> rm st2 (uid resident) (uid h);
        d2 \<leftarrow> q st2 (uid h);
        cur \<leftarrow> d2 i;
        prev \<leftarrow> (if i = 1 then Some Map.empty else d2 (i - 1));
        cs \<leftarrow> q_row_clauses y prev cur i cap;
        append_clauses cs st2 })"

definition q_hospital :: "Globals \<Rightarrow> Hospital \<Rightarrow> sat_state \<Rightarrow> sat_state option" where
  "q_hospital G h st = do {
     olist \<leftarrow> ok (SP_get_ordering h);
     cap \<leftarrow> capacity h;
     foldM (q_row G h olist cap) [0..<length olist + 1]
       (st\<lparr>q := (q st)(uid h \<mapsto> Map.empty)\<rparr>) }"

subsection \<open>Couple threshold variables\<close>

definition cpref_step ::
  "Globals \<Rightarrow> Couple \<Rightarrow> (int \<times> int) list \<Rightarrow> nat \<Rightarrow> sat_state \<Rightarrow> sat_state option" where
  "cpref_step G c olist number st = do {
     h0 \<leftarrow> hospital_dict G (fst (olist ! number));
     h1 \<leftarrow> hospital_dict G (snd (olist ! number));
     st2 \<leftarrow> set_cpref (uid c) number st;
     cur \<leftarrow> cp st2 (uid c) number;
     r0 \<leftarrow> ok (item_at (residents c) 0);
     r1 \<leftarrow> ok (item_at (residents c) 1);
     x0 \<leftarrow> rm st2 (uid r0) (uid h0);
     x1 \<leftarrow> rm st2 (uid r1) (uid h1);
     if number = 0
     then append_clauses [[- cur, x0], [- cur, x1], [cur, - x0, - x1]] st2
     else do {
       prev \<leftarrow> cp st2 (uid c) (number - 1);
       append_clauses
         [[- cur, prev, x0], [- cur, prev, x1], [cur, - prev], [cur, - x0, - x1]] st2 } }"

definition cpref_couple :: "Globals \<Rightarrow> Couple \<Rightarrow> sat_state \<Rightarrow> sat_state option" where
  "cpref_couple G c st = do {
     let olist = C_get_ordering c;
     st2 \<leftarrow> foldM (cpref_step G c olist) [0..<length olist]
              (st\<lparr>cpref := (cpref st)(uid c \<mapsto> Map.empty)\<rparr>);
     let number = length olist;
     st3 \<leftarrow> set_cpref (uid c) number st2;
     cur \<leftarrow> cp st3 (uid c) number;
     prev \<leftarrow> (if number = 0 then None else cp st3 (uid c) (number - 1));
     r0 \<leftarrow> ok (item_at (residents c) 0);
     r1 \<leftarrow> ok (item_at (residents c) 1);
     x0 \<leftarrow> rm st3 (uid r0) (uid NIL_HOSPITAL);
     x1 \<leftarrow> rm st3 (uid r1) (uid NIL_HOSPITAL);
     append_clauses
       [[- cur, prev, x0], [- cur, prev, x1], [cur, - prev], [cur, - x0, - x1]] st3 }"

definition couples_matched :: "ProblemInstance \<Rightarrow> sat_state \<Rightarrow> int list list option" where
  "couples_matched inst st =
     mapM (\<lambda>c. mapM (cp st (uid c)) [0..<length (C_get_ordering c) + 1]) (couples inst)"

subsection \<open>Stability clauses\<close>

fun append_q_vars ::
  "sat_state \<Rightarrow> int list \<Rightarrow> (Hospital \<times> Resident \<times> int) list \<Rightarrow> int list option" where
  "append_q_vars st l [] = Some l"
| "append_q_vars st l ((hospital, resident, number) # rest) =
     (if \<not> Agent_eq hospital NIL_HOSPITAL
      then (case ok (SP_get_rank hospital (uid resident)) of
              None \<Rightarrow> None
            | Some rank \<Rightarrow>
                if int rank \<ge> number
                then (if number < 0 then None
                      else (case qv st (uid hospital) rank (nat number) of
                              None \<Rightarrow> None
                            | Some v \<Rightarrow> append_q_vars st (l @ [v]) rest))
                else append_q_vars st l rest)
      else append_q_vars st l rest)"

definition singles_stability :: "Globals \<Rightarrow> ProblemInstance \<Rightarrow> sat_state \<Rightarrow> int list list option" where
  "singles_stability G inst st =
     concatM (\<lambda>single. do {
        olist \<leftarrow> ok (SP_get_ordering single);
        mapM (\<lambda>h_uid. do {
                h \<leftarrow> hospital_dict G h_uid;
                wp \<leftarrow> ok (SP_get_all_weakly_preferred single h_uid);
                lits \<leftarrow> mapM (rm_via G st (uid single)) wp;
                cap \<leftarrow> capacity h;
                append_q_vars st lits [(h, single, cap)] })
          olist })
       (singles inst)"

definition single_switch_pair ::
  "Globals \<Rightarrow> sat_state \<Rightarrow> Couple \<Rightarrow> Resident \<Rightarrow> Resident \<Rightarrow> (int \<times> int) list \<Rightarrow> nat
     \<Rightarrow> int list list option" where
  "single_switch_pair G st c r0 r1 olist number = do {
     h0 \<leftarrow> hospital_dict G (fst (olist ! number));
     h1 \<leftarrow> hospital_dict G (snd (olist ! number));
     if \<not> Agent_eq h0 h1 then do {
       x1 \<leftarrow> rm st (uid r1) (uid h1);
       k \<leftarrow> cp st (uid c) number;
       cap0 \<leftarrow> capacity h0;
       c1 \<leftarrow> append_q_vars st [- x1, k] [(h0, r0, cap0)];
       x0 \<leftarrow> rm st (uid r0) (uid h0);
       cap1 \<leftarrow> capacity h1;
       c2 \<leftarrow> append_q_vars st [- x0, k] [(h1, r1, cap1)];
       Some [c1, c2] }
     else do {
       rank0 \<leftarrow> ok (SP_get_rank h0 (uid r0));
       rank1 \<leftarrow> ok (SP_get_rank h0 (uid r1));
       x1 \<leftarrow> rm st (uid r1) (uid h1);
       k \<leftarrow> cp st (uid c) number;
       cap0 \<leftarrow> capacity h0;
       cap1 \<leftarrow> capacity h1;
       if rank0 < rank1 then do {
         c1 \<leftarrow> append_q_vars st [- x1, k] [(h0, r0, cap0), (h1, r1, cap1 - 1)];
         x0 \<leftarrow> rm st (uid r0) (uid h0);
         c2 \<leftarrow> append_q_vars st [- x0, k] [(h1, r1, cap1)];
         Some [c1, c2] }
       else do {
         c1 \<leftarrow> append_q_vars st [- x1, k] [(h0, r0, cap0)];
         x0 \<leftarrow> rm st (uid r0) (uid h0);
         c2 \<leftarrow> append_q_vars st [- x0, k] [(h0, r0, cap0 - 1), (h1, r1, cap1)];
         Some [c1, c2] } } }"

definition single_switch :: "Globals \<Rightarrow> ProblemInstance \<Rightarrow> sat_state \<Rightarrow> int list list option" where
  "single_switch G inst st =
     concatM (\<lambda>c. do {
        let olist = get_ranked_hospitals_pairs c;
        r0 \<leftarrow> ok (item_at (residents c) 0);
        r1 \<leftarrow> ok (item_at (residents c) 1);
        cs \<leftarrow> concatM (single_switch_pair G st c r0 r1 olist) [0..<length olist];
        n0 \<leftarrow> rm st (uid r0) (uid NIL_HOSPITAL);
        k \<leftarrow> cp st (uid c) (length olist);
        n1 \<leftarrow> rm st (uid r1) (uid NIL_HOSPITAL);
        Some (cs @ [[- n0, k], [- n1, k]]) })
       (couples inst)"

definition double_switch_pair ::
  "Globals \<Rightarrow> sat_state \<Rightarrow> Couple \<Rightarrow> Resident \<Rightarrow> Resident \<Rightarrow> (int \<times> int) list \<Rightarrow> nat
     \<Rightarrow> int list list option" where
  "double_switch_pair G st c r0 r1 olist number = do {
     h0 \<leftarrow> hospital_dict G (fst (olist ! number));
     h1 \<leftarrow> hospital_dict G (snd (olist ! number));
     if capacity h0 = Some 0 \<or> capacity h1 = Some 0 then Some []
     else if \<not> Agent_eq h0 h1 then do {
       x0 \<leftarrow> rm st (uid r0) (uid h0);
       x1 \<leftarrow> rm st (uid r1) (uid h1);
       k \<leftarrow> cp st (uid c) number;
       cap0 \<leftarrow> capacity h0;
       cap1 \<leftarrow> capacity h1;
       cl \<leftarrow> append_q_vars st [x0, x1, k] [(h0, r0, cap0), (h1, r1, cap1)];
       Some [cl] }
     else if capacity h0 = Some 1 then Some []
     else do {
       x0 \<leftarrow> rm st (uid r0) (uid h0);
       x1 \<leftarrow> rm st (uid r1) (uid h1);
       k \<leftarrow> cp st (uid c) number;
       cap0 \<leftarrow> capacity h0;
       cap1 \<leftarrow> capacity h1;
       cl \<leftarrow> append_q_vars st [x0, x1, k]
               [(h0, r0, cap0), (h1, r1, cap1), (h0, r0, cap0 - 1), (h1, r1, cap1 - 1)];
       Some [cl] } }"

definition double_switch :: "Globals \<Rightarrow> ProblemInstance \<Rightarrow> sat_state \<Rightarrow> int list list option" where
  "double_switch G inst st =
     concatM (\<lambda>c. do {
        let olist = get_ranked_hospitals_pairs c;
        r0 \<leftarrow> ok (item_at (residents c) 0);
        r1 \<leftarrow> ok (item_at (residents c) 1);
        cs \<leftarrow> concatM (double_switch_pair G st c r0 r1 olist) [0..<length olist];
        n0 \<leftarrow> rm st (uid r0) (uid NIL_HOSPITAL);
        n1 \<leftarrow> rm st (uid r1) (uid NIL_HOSPITAL);
        k \<leftarrow> cp st (uid c) (length olist);
        Some (cs @ [[n0, n1, k]]) })
       (couples inst)"

subsection \<open>The encoder\<close>

text \<open>
  The part of \<^verbatim>\<open>solve_sat\<close> up to \<^verbatim>\<open>constraints.flush()\<close>: the loops in the order of the
  source. A loop that only reads the dictionaries is a function from the state to the
  clauses it appends.
\<close>

definition emit ::
  "(sat_state \<Rightarrow> int list list option) \<Rightarrow> sat_state \<Rightarrow> sat_state option" where
  "emit gen st = (case gen st of None \<Rightarrow> None | Some cs \<Rightarrow> append_clauses cs st)"

definition solve_sat_clauses ::
  "(int list \<Rightarrow> int list) \<Rightarrow> Globals \<Rightarrow> ProblemInstance \<Rightarrow> sat_state option" where
  "solve_sat_clauses set_order G inst = do {
     s1 \<leftarrow> foldM (single_vars G) (singles inst) initial_sat_state;
     s2 \<leftarrow> foldM (couple_vars G) (couples inst) s1;
     s3 \<leftarrow> emit (singles_at_most_one G inst) s2;
     s4 \<leftarrow> emit (couples_at_most_one set_order G inst) s3;
     s5 \<leftarrow> foldM (q_hospital G) (hospitals inst) s4;
     s6 \<leftarrow> foldM (cpref_couple G) (couples inst) s5;
     s7 \<leftarrow> emit (couples_matched inst) s6;
     s8 \<leftarrow> emit (singles_stability G inst) s7;
     s9 \<leftarrow> emit (single_switch G inst) s8;
     emit (double_switch G inst) s9 }"

subsection \<open>Truth assignments\<close>

text \<open>
  A literal is a non-zero integer, positive for the variable and negative for its
  negation; an assignment gives every variable a truth value; a clause holds when one of
  its literals does.
\<close>

definition lit_true :: "(int \<Rightarrow> bool) \<Rightarrow> int \<Rightarrow> bool" where
  "lit_true a l = (if 0 < l then a l else l < 0 \<and> \<not> a (- l))"

definition clause_true :: "(int \<Rightarrow> bool) \<Rightarrow> int list \<Rightarrow> bool" where
  "clause_true a c = list_ex (lit_true a) c"

definition satisfies :: "(int \<Rightarrow> bool) \<Rightarrow> int list list \<Rightarrow> bool" where
  "satisfies a cs = list_all (clause_true a) cs"

section \<open>Predicates of the encoder proofs\<close>












text \<open>
  Two small instances. The first is scenario E1 of the specification: hospital 10 with
  capacity 1 ranks the singles 1 and 2, who both rank it. The second has the hospitals 1
  and 2 of capacity 1 and the couple 5 of the residents 10 and 11 with the pairs \<open>(1, 2)\<close>
  and \<open>(1, nil)\<close>. Each is given with the global dictionaries \<^verbatim>\<open>from_file\<close> leaves, and with
  an assignment of the encoder's variables.
\<close>

definition e1_hospital :: Hospital where
  "e1_hospital = \<lparr>uid = 10, preference_function = Some \<lparr>internal_list = [1, 2]\<rparr>,
                   capacity = Some 1, nil_class = False\<rparr>"

definition e1_instance :: ProblemInstance where
  "e1_instance =
     \<lparr>hospitals = [e1_hospital],
      singles = [\<lparr>uid = 1, preference_function = Some \<lparr>internal_list = [10]\<rparr>, couple = None\<rparr>,
                 \<lparr>uid = 2, preference_function = Some \<lparr>internal_list = [10]\<rparr>, couple = None\<rparr>],
      couples = [], matching = []\<rparr>"

definition e1_globals :: Globals where
  "e1_globals =
     \<lparr>resident_dict =
        [1 \<mapsto> \<lparr>uid = 1, preference_function = Some \<lparr>internal_list = [10]\<rparr>, couple = None\<rparr>,
         2 \<mapsto> \<lparr>uid = 2, preference_function = Some \<lparr>internal_list = [10]\<rparr>, couple = None\<rparr>],
      hospital_dict = [NIL_HOSPITAL_UID \<mapsto> NIL_HOSPITAL, 10 \<mapsto> e1_hospital],
      couple_dict = Map.empty\<rparr>"


definition c1_couple :: Couple where
  "c1_couple =
     \<lparr>uid = 5,
      joint_preference_function =
        \<lparr>joint_internal_list = [(1, 2), (1, NIL_HOSPITAL_UID)], cardinality = 2\<rparr>,
      residents = [\<lparr>uid = 10, preference_function = None, couple = Some 5\<rparr>,
                   \<lparr>uid = 11, preference_function = None, couple = Some 5\<rparr>],
      ranked_hospitals = [10 \<mapsto> [1], 11 \<mapsto> [2, NIL_HOSPITAL_UID]],
      size_c = 2\<rparr>"

definition c1_instance :: ProblemInstance where
  "c1_instance =
     \<lparr>hospitals =
        [\<lparr>uid = 1, preference_function = Some \<lparr>internal_list = [10]\<rparr>,
          capacity = Some 1, nil_class = False\<rparr>,
         \<lparr>uid = 2, preference_function = Some \<lparr>internal_list = [11]\<rparr>,
          capacity = Some 1, nil_class = False\<rparr>],
      singles = [], couples = [c1_couple], matching = []\<rparr>"

definition c1_globals :: Globals where
  "c1_globals =
     \<lparr>resident_dict =
        [10 \<mapsto> \<lparr>uid = 10, preference_function = None, couple = Some 5\<rparr>,
         11 \<mapsto> \<lparr>uid = 11, preference_function = None, couple = Some 5\<rparr>],
      hospital_dict =
        [NIL_HOSPITAL_UID \<mapsto> NIL_HOSPITAL,
         1 \<mapsto> \<lparr>uid = 1, preference_function = Some \<lparr>internal_list = [10]\<rparr>,
                capacity = Some 1, nil_class = False\<rparr>,
         2 \<mapsto> \<lparr>uid = 2, preference_function = Some \<lparr>internal_list = [11]\<rparr>,
                capacity = Some 1, nil_class = False\<rparr>],
      couple_dict = [5 \<mapsto> c1_couple]\<rparr>"


text \<open>
  The decoder of \<^verbatim>\<open>solve_sat\<close>. The solver's output is given as the integers of its \<^verbatim>\<open>v\<close>
  lines, line by line. A positive literal whose registry name is an \<^verbatim>\<open>xr\<close> or \<^verbatim>\<open>xc\<close> name
  assigns the resident of the name to the hospital of the name, a later assignment
  replacing an earlier one; after each line every single without an entry is assigned to
  the nil hospital. The matching dictionary is the list of its entries.
\<close>

fun matching_set :: "(int \<times> int) list \<Rightarrow> int \<Rightarrow> int \<Rightarrow> (int \<times> int) list" where
  "matching_set [] k v = [(k, v)]"
| "matching_set ((k', v') # m) k v =
     (if k' = k then (k', v) # m else (k', v') # matching_set m k v)"

definition decode_literal ::
  "(int \<rightharpoonup> var_name) \<Rightarrow> int \<Rightarrow> (int \<times> int) list \<Rightarrow> (int \<times> int) list option" where
  "decode_literal registry var m =
     (if var = 0 then Some m
      else (case registry \<bar>var\<bar> of
              None \<Rightarrow> None
            | Some var_name \<Rightarrow>
                (case var_name of
                   XR r h \<Rightarrow> Some (if var > 0 then matching_set m r h else m)
                 | XC c r h \<Rightarrow> Some (if var > 0 then matching_set m r h else m)
                 | QN h i j \<Rightarrow> Some m
                 | CPREF c k \<Rightarrow> Some m)))"

definition decode_line ::
  "(int \<rightharpoonup> var_name) \<Rightarrow> Resident list \<Rightarrow> int list \<Rightarrow> (int \<times> int) list
     \<Rightarrow> (int \<times> int) list option" where
  "decode_line registry ss lits m =
     (case foldM (decode_literal registry) lits m of
        None \<Rightarrow> None
      | Some m' \<Rightarrow>
          Some (fold (\<lambda>single d. if uid single \<in> fst ` set d then d
                                   else matching_set d (uid single) NIL_HOSPITAL_UID) ss m'))"

definition decode ::
  "(int \<rightharpoonup> var_name) \<Rightarrow> Resident list \<Rightarrow> int list list \<Rightarrow> (int \<times> int) list option" where
  "decode registry ss v_lines = foldM (decode_line registry ss) v_lines []"

text \<open>
  The \<^verbatim>\<open>v\<close> line with which a solver reports a total assignment of the variables
  \<open>1, \<dots>, n\<close>.
\<close>

definition model_line :: "(int \<Rightarrow> bool) \<Rightarrow> int \<Rightarrow> int list" where
  "model_line a n = map (\<lambda>k. if a (int k) then int k else - int k) [1..<nat n + 1] @ [0]"

text \<open>
  Stability as the specification states it. A resident without an entry is unmatched.
  A hospital is at capacity for a resident when the residents assigned to it among those
  it weakly prefers to the resident are at least its capacity; the nil hospital never is.
  A single blocks with a hospital of its list that it strictly prefers to its assignment
  and that is not at capacity for it. A couple blocks with a pair of its list that it
  strictly prefers to its assignment when no component of the switch is blocked, a
  component being blocked when the member is not yet at the hospital and the hospital is
  at capacity for the member.
\<close>

definition assigned :: "(int \<times> int) list \<Rightarrow> int \<Rightarrow> int" where
  "assigned m r = (case map_of m r of None \<Rightarrow> NIL_HOSPITAL_UID | Some h \<Rightarrow> h)"

definition at_capacity_for :: "(int \<times> int) list \<Rightarrow> Hospital \<Rightarrow> int \<Rightarrow> bool" where
  "at_capacity_for m h r =
     (if Agent_eq h NIL_HOSPITAL then False
      else (case (SP_get_all_weakly_preferred h r, capacity h) of
              (Inr ws, Some cap) \<Rightarrow>
                 cap \<le> int (length (filter (\<lambda>r'. assigned m r' = uid h) ws))
            | _ \<Rightarrow> False))"

definition rank_or_end :: "'a list \<Rightarrow> 'a \<Rightarrow> nat" where
  "rank_or_end xs x = length (takeWhile (\<lambda>y. y \<noteq> x) xs)"

definition single_blocks :: "Globals \<Rightarrow> (int \<times> int) list \<Rightarrow> Resident \<Rightarrow> int \<Rightarrow> bool" where
  "single_blocks G m r h_uid =
     (case (SP_get_ordering r, hospital_dict G h_uid) of
        (Inr olist, Some h) \<Rightarrow>
           h_uid \<in> set olist
         \<and> rank_or_end olist h_uid < rank_or_end olist (assigned m (uid r))
         \<and> \<not> at_capacity_for m h (uid r)
      | _ \<Rightarrow> False)"

definition couple_blocks :: "Globals \<Rightarrow> (int \<times> int) list \<Rightarrow> Couple \<Rightarrow> nat \<Rightarrow> bool" where
  "couple_blocks G m c k =
     (let olist = C_get_ordering c; r0 = residents c ! 0; r1 = residents c ! 1;
          now = (assigned m (uid r0), assigned m (uid r1))
      in k < length olist \<and> k < rank_or_end olist now
       \<and> (case (hospital_dict G (fst (olist ! k)), hospital_dict G (snd (olist ! k))) of
             (Some h0, Some h1) \<Rightarrow>
                \<not> (assigned m (uid r0) \<noteq> uid h0 \<and> at_capacity_for m h0 (uid r0))
              \<and> \<not> (assigned m (uid r1) \<noteq> uid h1 \<and> at_capacity_for m h1 (uid r1))
           | _ \<Rightarrow> False))"

definition c1_stale_assignment :: "int \<Rightarrow> bool" where
  "c1_stale_assignment v = (v \<in> set [1, 3, 4, 7, 9, 10, 11, 12])"

text \<open>
  The MIP encoder. A variable name is kept in structured form: \<^verbatim>\<open>x_r,h\<close>, \<^verbatim>\<open>x_c,h0,h1\<close>
  or \<^verbatim>\<open>alpha_r,h\<close>. A coefficient is an integer: the source mixes the floats \<^verbatim>\<open>1.\<close>,
  \<^verbatim>\<open>-1.\<close>, \<^verbatim>\<open>0.\<close> with integer capacities, and every value it computes from them is a
  small integer, which floating point represents exactly. A constraint has its terms on
  the left and one constant on the right. The list \<^verbatim>\<open>binaries\<close> only reaches the LP file
  and is left out.
\<close>

datatype mip_var = X_single int int | X_couple int int int | Alpha int int

record CoeffVar =
  coeff :: "int option"
  var :: "mip_var option"






































text \<open>
  A third instance: the hospitals 1 and 2 of capacity 2 and 3 and 4 of capacity 1, and the
  couple 5 of the residents 10 and 11 with the pairs \<open>(1, 2)\<close> and \<open>(3, 4)\<close>.
\<close>

definition d1_couple :: Couple where
  "d1_couple =
     \<lparr>uid = 5,
      joint_preference_function = \<lparr>joint_internal_list = [(1, 2), (3, 4)], cardinality = 2\<rparr>,
      residents = [\<lparr>uid = 10, preference_function = None, couple = Some 5\<rparr>,
                   \<lparr>uid = 11, preference_function = None, couple = Some 5\<rparr>],
      ranked_hospitals = [10 \<mapsto> [1, 3], 11 \<mapsto> [2, 4]],
      size_c = 2\<rparr>"

definition d1_hospital :: "int \<Rightarrow> int \<Rightarrow> int \<Rightarrow> Hospital" where
  "d1_hospital u cap r =
     \<lparr>uid = u, preference_function = Some \<lparr>internal_list = [r]\<rparr>,
      capacity = Some cap, nil_class = False\<rparr>"

definition d1_instance :: ProblemInstance where
  "d1_instance =
     \<lparr>hospitals = [d1_hospital 1 2 10, d1_hospital 2 2 11, d1_hospital 3 1 10,
                   d1_hospital 4 1 11],
      singles = [], couples = [d1_couple], matching = []\<rparr>"

definition d1_globals :: Globals where
  "d1_globals =
     \<lparr>resident_dict =
        [10 \<mapsto> \<lparr>uid = 10, preference_function = None, couple = Some 5\<rparr>,
         11 \<mapsto> \<lparr>uid = 11, preference_function = None, couple = Some 5\<rparr>],
      hospital_dict =
        [NIL_HOSPITAL_UID \<mapsto> NIL_HOSPITAL, 1 \<mapsto> d1_hospital 1 2 10, 2 \<mapsto> d1_hospital 2 2 11,
         3 \<mapsto> d1_hospital 3 1 10, 4 \<mapsto> d1_hospital 4 1 11],
      couple_dict = [5 \<mapsto> d1_couple]\<rparr>"

text \<open>
  No literal of a clause is zero; the encoder keeps this and the positive variable
  numbers through all its loops.
\<close>

definition nonzero_lits :: "int list list \<Rightarrow> bool" where
  "nonzero_lits cs = (\<forall>c\<in>set cs. 0 \<notin> set c)"








section \<open>Properties of ListPreferenceFunction\<close>

lemma get_all_preferred_loop_found:
  "k < length xs \<Longrightarrow> distinct xs \<Longrightarrow>
   get_all_preferred_loop xs (xs ! k) acc = Inr (acc @ take k xs)"
proof (induction xs arbitrary: k acc)
  case Nil
  then show ?case by simp
next
  case (Cons x xs)
  show ?case
  proof (cases k)
    case 0
    then show ?thesis by simp
  next
    case (Suc m)
    with Cons.prems have m: "m < length xs" and d: "distinct xs" and nx: "xs ! m \<noteq> x"
      by auto
    from Cons.IH [OF m d] Suc nx show ?thesis by auto
  qed
qed

lemma get_all_preferred_loop_missing:
  "u \<notin> set xs \<Longrightarrow>
   get_all_preferred_loop xs u acc = Inl (Exception ''uid not in preference list'')"
  by (induction xs arbitrary: acc) auto

lemma list_index_found:
  "k < length xs \<Longrightarrow> distinct xs \<Longrightarrow> list_index xs (xs ! k) = Inr k"
proof (induction xs arbitrary: k)
  case Nil
  then show ?case by simp
next
  case (Cons x xs)
  show ?case
  proof (cases k)
    case 0
    then show ?thesis by simp
  next
    case (Suc m)
    with Cons.prems have m: "m < length xs" and d: "distinct xs" and nx: "xs ! m \<noteq> x"
      by auto
    from Cons.IH [OF m d] Suc nx show ?thesis by auto
  qed
qed

text \<open>
  Claim C7. For a duplicate-free preference list and the uid at index \<open>k\<close>,
  \<^verbatim>\<open>get_rank\<close> returns \<open>k\<close> and \<^verbatim>\<open>get_all_weakly_preferred\<close> returns the first
  \<open>k\<close> elements followed by the uid; for a uid that is not in the list,
  \<^verbatim>\<open>get_all_preferred\<close> and \<^verbatim>\<open>get_all_weakly_preferred\<close> raise.
\<close>

theorem list_preference_rank_and_weakly_preferred:
  "(distinct (internal_list pf) \<and> k < length (internal_list pf) \<longrightarrow>
      get_rank pf (internal_list pf ! k) = Inr k
    \<and> get_all_weakly_preferred pf (internal_list pf ! k)
        = Inr (take k (internal_list pf) @ [internal_list pf ! k]))
   \<and> (u \<notin> set (internal_list pf) \<longrightarrow>
        (\<exists>e. get_all_preferred pf u = Inl e)
      \<and> (\<exists>e. get_all_weakly_preferred pf u = Inl e))"
  by (simp add: get_rank_def get_all_weakly_preferred_def get_all_preferred_def
      list_index_found get_all_preferred_loop_found get_all_preferred_loop_missing)

theorem list_preference_rank_and_weakly_preferred_witness:
  "distinct [7, 3, 9 :: int] \<and> (1::nat) < length [7, 3, 9 :: int]
   \<and> get_rank \<lparr>internal_list = [7, 3, 9]\<rparr> 3 = Inr 1
   \<and> get_all_weakly_preferred \<lparr>internal_list = [7, 3, 9]\<rparr> 3 = Inr [7, 3]
   \<and> (4::int) \<notin> set [7, 3, 9]
   \<and> (\<exists>e. get_all_preferred \<lparr>internal_list = [7, 3, 9]\<rparr> 4 = Inl e)
   \<and> (\<exists>e. get_all_weakly_preferred \<lparr>internal_list = [7, 3, 9]\<rparr> 4 = Inl e)"
  using list_preference_rank_and_weakly_preferred
    [of "\<lparr>internal_list = [7, 3, 9]\<rparr>" 1 4]
  by simp

section \<open>Agents as keys\<close>








section \<open>The constraints buffer\<close>

lemma fs_append_apply [simp]:
  "fs_append fs name s name = Some ((case fs name of None \<Rightarrow> [] | Some old \<Rightarrow> old) @ s)"
  by (simp add: fs_append_def)

lemma render_lines_append [simp]:
  "render_lines (xs @ ys) = render_lines xs @ render_lines ys"
  by (simp add: render_lines_def)

lemma render_lines_single [simp]: "render_lines [c] = render c @ [newline]"
  by (simp add: render_lines_def)

lemma render_lines_Nil [simp]: "render_lines [] = []"
  by (simp add: render_lines_def)





lemma digit_char_not_newline: "d < 10 \<Longrightarrow> digit_char d \<noteq> newline"
proof -
  assume "d < 10"
  then have "digit_char d \<in> set ''0123456789''"
    unfolding digit_char_def by (intro nth_mem) simp
  then show ?thesis by (auto simp: newline_def)
qed

lemma str_nat_no_newline: "newline \<notin> set (str_nat n)"
proof (induction n rule: str_nat.induct)
  case (1 n)
  show ?case
  proof (cases "n < 10")
    case True
    then show ?thesis using digit_char_not_newline [of n] by (subst str_nat.simps) auto
  next
    case False
    have "n mod 10 < 10" by simp
    with False 1 show ?thesis
      using digit_char_not_newline [of "n mod 10"] by (subst str_nat.simps) auto
  qed
qed

lemma minus_not_newline: "CHR ''-'' \<noteq> newline"
  by (simp add: newline_def)


lemma str_int_no_newline: "newline \<notin> set (str_int i)"
  using minus_not_newline by (auto simp: str_int_def str_nat_no_newline)



lemma lines_of_line:
  "newline \<notin> set l \<Longrightarrow> lines_of (l @ newline # rest) = l # lines_of rest"
  by (induction l) auto




section \<open>The matching file\<close>

lemma matching_line_entry: "matching_line e = matching_entry e @ [newline]"
  by (simp add: matching_line_def matching_entry_def NIL_HOSPITAL_SYMBOL_def)

lemma matching_entry_no_newline: "newline \<notin> set (matching_entry e)"
  using str_int_no_newline
  by (simp add: matching_entry_def newline_def)

lemma lines_of_matching_lines:
  "lines_of (concat (map matching_line m)) = map matching_entry m"
proof (induction m)
  case Nil
  show ?case by simp
next
  case (Cons e m)
  then show ?case
    by (simp add: matching_line_entry lines_of_line matching_entry_no_newline)
qed

lemma lines_of_m0: "lines_of (CHR ''m'' # CHR '' '' # CHR ''0'' # [newline]) = [''m 0'']"
proof -
  have "lines_of (''m 0'' @ newline # []) = ''m 0'' # lines_of []"
    by (rule lines_of_line) (simp add: newline_def)
  then show ?thesis by (simp del: lines_of.simps) simp
qed

lemma lines_of_m1:
  "lines_of (CHR ''m'' # CHR '' '' # CHR ''1'' # newline # rest) = ''m 1'' # lines_of rest"
proof -
  have "lines_of (''m 1'' @ newline # rest) = ''m 1'' # lines_of rest"
    by (rule lines_of_line) (simp add: newline_def)
  then show ?thesis by (simp del: lines_of.simps)
qed

lemma lines_of_header:
  assumes "newline \<notin> set h"
  shows "lines_of (CHR ''#'' # CHR '' '' # h @ newline # rest) = (''# '' @ h) # lines_of rest"
proof -
  have "lines_of ((''# '' @ h) @ newline # rest) = (''# '' @ h) # lines_of rest"
    by (rule lines_of_line) (use assms in \<open>simp add: newline_def\<close>)
  then show ?thesis by (simp del: lines_of.simps)
qed

text \<open>
  Claim C9, amended. For a header that contains no newline character (or no header),
  the file \<^verbatim>\<open>print_matching\<close> writes consists of the comment line \<^verbatim>\<open># header\<close> when a
  header is given, then \<^verbatim>\<open>m 0\<close> alone for an empty matching, and otherwise \<^verbatim>\<open>m 1\<close>
  followed by one line \<^verbatim>\<open>r uid hospital\<close> per entry, with \<^verbatim>\<open>-1\<close> for the nil hospital.
\<close>

theorem print_matching_lines:
  assumes "case header of None \<Rightarrow> True | Some h \<Rightarrow> newline \<notin> set h"
  shows "map_option lines_of (print_matching m fs name header name)
         = Some ((case header of None \<Rightarrow> [] | Some h \<Rightarrow> [''# '' @ h])
                 @ (if m = [] then [''m 0'']
                    else ''m 1'' # map matching_entry m))"
proof (cases header)
  case None
  then show ?thesis
    by (simp add: print_matching_def fs_truncate_write_def lines_of_m0 lines_of_m1
        lines_of_matching_lines del: lines_of.simps)
next
  case (Some h)
  with assms have nl: "newline \<notin> set h" by simp
  show ?thesis
    by (simp add: Some print_matching_def fs_truncate_write_def lines_of_header [OF nl]
        lines_of_m0 lines_of_m1 lines_of_matching_lines del: lines_of.simps)
qed

theorem print_matching_lines_witness:
  "(case Some ''stable'' of None \<Rightarrow> True | Some h \<Rightarrow> newline \<notin> set h)
   \<and> map_option lines_of
        (print_matching [(1, 20), (2, NIL_HOSPITAL_UID)] Map.empty ''out'' (Some ''stable'') ''out'')
       = Some [''# stable'', ''m 1'', ''r 1 20'', ''r 2 -1'']"
proof -
  have h: "case Some ''stable'' of None \<Rightarrow> True | Some h \<Rightarrow> newline \<notin> set h"
    by (simp add: newline_def)
  have e: "matching_entry (1, 20) = ''r 1 20''" "matching_entry (2, NIL_HOSPITAL_UID) = ''r 2 -1''"
    by (simp_all add: matching_entry_def str_int_def str_nat.simps digit_char_def NIL_HOSPITAL_UID_def)
  show ?thesis
    using h print_matching_lines [OF h, of "[(1, 20), (2, NIL_HOSPITAL_UID)]" Map.empty "''out''"]
    by (simp add: e)
qed

text \<open>
  The header is written as it is: one that contains a newline gives two lines before the
  \<^verbatim>\<open>m\<close> line, and the second does not begin with \<^verbatim>\<open>#\<close>.
\<close>

theorem print_matching_header_newline_counterexample:
  "map_option lines_of
     (print_matching [] Map.empty ''out'' (Some [CHR ''a'', newline, CHR ''b'']) ''out'')
   = Some [''# a'', ''b'', ''m 0'']"
  by (simp add: print_matching_def fs_truncate_write_def newline_def)

section \<open>Ranked hospitals of a couple's members\<close>

text \<open>
  Claim C5, amended. Whatever order the runtime gives a set, as long as it lists every
  element of the set once: for a couple constructed from a joint list of pairs, the list
  \<^verbatim>\<open>get_ranked_hospitals\<close> returns for the second member has no duplicates and holds exactly
  the hospitals of the second coordinate, and, when the two members have different uids,
  the list returned for the first member has no duplicates and holds exactly the hospitals
  of the first coordinate. The order of the list is the set's, not that of first occurrence.
\<close>

theorem couple_ranked_hospitals_set:
  assumes "\<forall>xs. distinct (set_order xs) \<and> set (set_order xs) = set xs"
    and "cardinality pf = 2"
  shows "(\<exists>l1. ranked_hospitals_of_member set_order pf u [r0, r1] G 1 = Inr l1
            \<and> distinct l1 \<and> set l1 = snd ` set (joint_internal_list pf))
       \<and> (uid r0 \<noteq> uid r1 \<longrightarrow>
           (\<exists>l0. ranked_hospitals_of_member set_order pf u [r0, r1] G 0 = Inr l0
              \<and> distinct l0 \<and> set l0 = fst ` set (joint_internal_list pf)))"
  using assms
  by (simp add: ranked_hospitals_of_member_def Couple_init_def bind_err_def item_at_def
      get_ranked_hospitals_def Let_def)

lemma ascending_set_order_law:
  "\<forall>xs. distinct (ascending_set_order xs) \<and> set (ascending_set_order xs) = set xs"
  by (simp add: ascending_set_order_def)

theorem couple_ranked_hospitals_set_witness:
  "(\<forall>xs. distinct (ascending_set_order xs) \<and> set (ascending_set_order xs) = set xs)
   \<and> cardinality \<lparr>joint_internal_list = [(5, 1), (3, 2), (5, 2)], cardinality = 2\<rparr> = 2
   \<and> (\<exists>l1. ranked_hospitals_of_member ascending_set_order
              \<lparr>joint_internal_list = [(5, 1), (3, 2), (5, 2)], cardinality = 2\<rparr> 1
              [\<lparr>uid = 10, preference_function = None, couple = None\<rparr>,
               \<lparr>uid = 11, preference_function = None, couple = None\<rparr>] module_globals 1 = Inr l1
            \<and> distinct l1 \<and> set l1 = {1, 2})
   \<and> (\<exists>l0. ranked_hospitals_of_member ascending_set_order
              \<lparr>joint_internal_list = [(5, 1), (3, 2), (5, 2)], cardinality = 2\<rparr> 1
              [\<lparr>uid = 10, preference_function = None, couple = None\<rparr>,
               \<lparr>uid = 11, preference_function = None, couple = None\<rparr>] module_globals 0 = Inr l0
            \<and> distinct l0 \<and> set l0 = {5, 3})"
  using couple_ranked_hospitals_set [OF ascending_set_order_law,
      of "\<lparr>joint_internal_list = [(5, 1), (3, 2), (5, 2)], cardinality = 2\<rparr>" 1
         "\<lparr>uid = 10, preference_function = None, couple = None\<rparr>"
         "\<lparr>uid = 11, preference_function = None, couple = None\<rparr>" module_globals]
    ascending_set_order_law
  by (simp add: insert_commute)

text \<open>
  With the order CPython gives the set built from \<open>[5, 3]\<close> the first member's list is
  \<open>[3, 5]\<close>, where first occurrence gives \<open>[5, 3]\<close>; and when both members carry the same
  uid, the first member is answered with the second member's list.
\<close>

theorem couple_ranked_hospitals_order_counterexample:
  "ranked_hospitals_of_member ascending_set_order
      \<lparr>joint_internal_list = [(5, 1), (3, 2)], cardinality = 2\<rparr> 1
      [\<lparr>uid = 10, preference_function = None, couple = None\<rparr>,
       \<lparr>uid = 11, preference_function = None, couple = None\<rparr>] module_globals 0 = Inr [3, 5]
   \<and> first_occurrence_dedup (map fst [(5, 1), (3, 2)]) = [5, 3]
   \<and> ranked_hospitals_of_member ascending_set_order
      \<lparr>joint_internal_list = [(5, 1), (3, 2)], cardinality = 2\<rparr> 1
      [\<lparr>uid = 10, preference_function = None, couple = None\<rparr>,
       \<lparr>uid = 10, preference_function = None, couple = None\<rparr>] module_globals 0 = Inr [1, 2]"
  by (simp add: ranked_hospitals_of_member_def Couple_init_def bind_err_def item_at_def
      get_ranked_hospitals_def Let_def ascending_set_order_def)

section \<open>Duplicate uids in a problem file\<close>

text \<open>
  Claim C4 says that \<^verbatim>\<open>from_file\<close> rejects a file in which a resident, program or couple uid
  is repeated or a couple names a resident already declared. The code tests membership in
  dictionaries that stay empty, so it accepts such a file: this one repeats resident 1,
  program 20 and couple 5, names the declared resident 1 in a couple, and loads.
\<close>

theorem from_file_accepts_duplicate_uids:
  "loaded_uids (from_file set_order
      [''r 1 20'' @ [newline], ''r 1 21'' @ [newline],
       ''p 20 1 1'' @ [newline], ''p 20 2'' @ [newline],
       ''c 5 1 2 20 21'' @ [newline], ''c 5 3 3 21 20'' @ [newline]] False module_globals)
   = Inr ([20, 20], [1, 1], [5, 5], [[1, 2], [3, 3]])"
  by (simp add: loaded_uids_def from_file_def from_file_line_def resident_line_def
      program_line_def couple_line_def py_split_def is_space_def newline_def starts_with_def
      py_int_def digit_of_char_def bind_err_def item_at_def hospital_token_def
      NIL_HOSPITAL_SYMBOL_def Resident_init_def Hospital_init_def Couple_init_def
      ProblemInstance_init_def Let_def)


lemma py_int_error: "py_int t = Inl e \<Longrightarrow> e = ValueError"
  by (auto simp: py_int_def Let_def split: list.splits if_splits option.splits prod.splits)

lemma item_at_error: "item_at xs i = Inl e \<Longrightarrow> e = IndexError"
  by (auto simp: item_at_def split: if_splits)

lemma last_item_error: "last_item xs = Inl e \<Longrightarrow> e = IndexError"
  by (auto simp: last_item_def split: if_splits)

lemma ints_of_error: "ints_of ts = Inl e \<Longrightarrow> e = ValueError"
  by (induction ts arbitrary: e)
     (auto simp: bind_err_def split: sum.splits dest: py_int_error)

lemma hospital_token_error: "hospital_token t = Inl e \<Longrightarrow> e = ValueError"
  by (auto simp: hospital_token_def split: if_splits dest: py_int_error)

lemma pairs_of_error: "pairs_of ts = Inl e \<Longrightarrow> e = ValueError \<or> e = IndexError"
  by (induction ts arbitrary: e rule: pairs_of.induct)
     (auto simp: bind_err_def split: sum.splits dest: hospital_token_error)

lemma Couple_init_error:
  "Couple_init so pf u rs G = Inl e \<Longrightarrow> e = AssertionError \<or> e = IndexError"
  by (auto simp: Couple_init_def Let_def split: if_splits list.splits)

lemma not_duplicate [simp]:
  "\<not> duplicate_error ValueError" "\<not> duplicate_error IndexError"
  "\<not> duplicate_error AssertionError" "\<not> duplicate_error (Exception ''line not readable'')"
  by (simp_all add: duplicate_error_def)

lemma resident_line_step:
  assumes "locals_empty st"
  shows "case resident_line an items st of
           Inl e \<Rightarrow> \<not> duplicate_error e | Inr st' \<Rightarrow> locals_empty st'"
  using assms
  by (auto simp: resident_line_def bind_err_def locals_empty_def Let_def Resident_init_def
      split: sum.splits if_splits prod.splits
      dest!: py_int_error item_at_error last_item_error ints_of_error)

lemma program_line_step:
  assumes "locals_empty st"
  shows "case program_line items st of
           Inl e \<Rightarrow> \<not> duplicate_error e | Inr st' \<Rightarrow> locals_empty st'"
  using assms
  by (auto simp: program_line_def bind_err_def locals_empty_def Let_def Hospital_init_def
      split: sum.splits if_splits prod.splits
      dest!: py_int_error item_at_error last_item_error ints_of_error)

lemma couple_line_step:
  assumes "locals_empty st"
  shows "case couple_line so an items st of
           Inl e \<Rightarrow> \<not> duplicate_error e | Inr st' \<Rightarrow> locals_empty st'"
  using assms
  by (auto simp: couple_line_def bind_err_def locals_empty_def Let_def Resident_init_def
      split: sum.splits if_splits prod.splits
      dest!: py_int_error item_at_error last_item_error pairs_of_error Couple_init_error)

lemma from_file_line_step:
  assumes "locals_empty st"
  shows "case from_file_line so an line st of
           Inl e \<Rightarrow> \<not> duplicate_error e | Inr st' \<Rightarrow> locals_empty st'"
  using resident_line_step [OF assms] program_line_step [OF assms] couple_line_step [OF assms]
    assms
  by (simp add: from_file_line_def Let_def)

lemma from_file_loop_step:
  "locals_empty st \<Longrightarrow>
   (case from_file_loop so an ls st of
      Inl e \<Rightarrow> \<not> duplicate_error e | Inr st' \<Rightarrow> locals_empty st')"
proof (induction ls arbitrary: st)
  case Nil
  then show ?case by simp
next
  case (Cons l ls)
  show ?case
  proof (cases "from_file_line so an l st")
    case (Inl e)
    with from_file_line_step [OF Cons.prems, of so an l] show ?thesis
      by (simp add: bind_err_def)
  next
    case (Inr st')
    with from_file_line_step [OF Cons.prems, of so an l] have "locals_empty st'" by simp
    from Cons.IH [OF this] Inr show ?thesis by (simp add: bind_err_def)
  qed
qed

text \<open>No input makes \<^verbatim>\<open>from_file\<close> raise one of its four duplicate errors.\<close>

lemma from_file_never_reports_duplicates:
  "from_file so ls an G = Inl e \<Longrightarrow> \<not> duplicate_error e"
proof -
  assume a: "from_file so ls an G = Inl e"
  let ?st0 = "\<lparr>local_resident_dict = Map.empty, local_hospital_dict = Map.empty,
           local_couple_dict = Map.empty,
           fs_hospitals = [], fs_singles = [], fs_couples = [], fs_globals = G\<rparr>"
  have "locals_empty ?st0" by (simp add: locals_empty_def)
  from from_file_loop_step [OF this, of so an ls] a show ?thesis
    by (auto simp: from_file_def bind_err_def split: sum.splits)
qed

section \<open>Loops that may raise\<close>







section \<open>Assignments\<close>

lemma satisfies_append [simp]: "satisfies a (xs @ ys) \<longleftrightarrow> satisfies a xs \<and> satisfies a ys"
  by (simp add: satisfies_def)


lemma lit_true_pos [simp]: "0 < v \<Longrightarrow> lit_true a v = a v"
  by (simp add: lit_true_def)

lemma lit_true_neg [simp]: "0 < v \<Longrightarrow> lit_true a (- v) = (\<not> a v)"
  by (simp add: lit_true_def)

lemma satisfies_Cons [simp]: "satisfies a (c # cs) \<longleftrightarrow> clause_true a c \<and> satisfies a cs"
  by (simp add: satisfies_def)

lemma satisfies_Nil [simp]: "satisfies a []"
  by (simp add: satisfies_def)

lemma clause_true_Cons [simp]: "clause_true a (l # ls) \<longleftrightarrow> lit_true a l \<or> clause_true a ls"
  by (simp add: clause_true_def)

lemma clause_true_Nil [simp]: "\<not> clause_true a []"
  by (simp add: clause_true_def)

section \<open>Effects of the state operations\<close>






section \<open>Couple threshold variables\<close>











section \<open>Counter variables\<close>


















section \<open>The encoder as a whole\<close>















section \<open>Two instances\<close>

lemma e1_from_file:
  "from_file so [''p 10 1 1 2'' @ [newline], ''r 1 10'' @ [newline], ''r 2 10'' @ [newline]]
     False module_globals = Inr (e1_instance, e1_globals)"
  by (simp add: from_file_def from_file_line_def resident_line_def
      program_line_def py_split_def is_space_def newline_def starts_with_def
      py_int_def digit_of_char_def bind_err_def item_at_def
      Resident_init_def Hospital_init_def module_globals_def e1_instance_def e1_globals_def
      e1_hospital_def ProblemInstance_init_def Let_def)

lemma c1_from_file:
  "from_file ascending_set_order
     [''p 1 1 10'' @ [newline], ''p 2 1 11'' @ [newline], ''c 5 10 11 1 2 1 -1'' @ [newline]]
     False module_globals = Inr (c1_instance, c1_globals)"
  by (simp add: from_file_def from_file_line_def couple_line_def
      program_line_def py_split_def is_space_def newline_def starts_with_def
      py_int_def digit_of_char_def bind_err_def item_at_def hospital_token_def
      NIL_HOSPITAL_SYMBOL_def Couple_init_def ascending_set_order_def
      Resident_init_def Hospital_init_def module_globals_def c1_instance_def c1_globals_def
      c1_couple_def ProblemInstance_init_def Let_def NIL_HOSPITAL_UID_def fun_upd_twist)

lemmas encoder_defs =
  solve_sat_clauses_def initial_sat_state_def single_vars_def couple_vars_def
  couple_member_vars_def ok_def SP_get_ordering_def get_ordering_def get_ranked_hospitals_def
  set_res_match_def rm_via_def rm_def NIL_HOSPITAL_def NIL_HOSPITAL_UID_def
  append_clauses_def emit_def singles_at_most_one_def couples_at_most_one_def concatM_def
  at_most_one_clauses_def q_hospital_def q_row_def q_width_def set_q_def q_row_clauses_def
  q_step_clauses_def cpref_couple_def cpref_step_def set_cpref_def cp_def C_get_ordering_def
  get_ranked_hospitals_pairs_def item_at_def couples_matched_def singles_stability_def
  SP_get_all_weakly_preferred_def get_all_weakly_preferred_def get_all_preferred_def
  Agent_eq_def SP_get_rank_def get_rank_def qv_def single_switch_def single_switch_pair_def
  double_switch_def double_switch_pair_def ascending_set_order_def Let_def upt_conv_Cons







section \<open>Decoding a satisfying assignment\<close>

lemma c1_registry:
  "map_option (\<lambda>st. (emitted st, last_uid st, map (variable_registry st) [1, 2, 3, 4, 5, 6, 7, 8, 9, 10, 11, 12]))
     (solve_sat_clauses ascending_set_order c1_globals c1_instance) =
   Some ([[1, 2], [3, 5, 5], [- 1, - 2], [- 3, - 5], [1, 6], [- 1, 7], [- 1, - 6],
    [1, - 7], [3, 8], [- 3, 9], [- 3, - 8], [3, - 9], [- 10, 1], [- 10, 3],
    [10, - 1, - 3], [- 11, 10, 1], [- 11, 10, 5], [11, - 10],
    [11, - 1, - 5], [- 12, 11, 2], [- 12, 11, 5], [12, - 11],
    [12, - 2, - 5], [10, 11, 12], [- 3, 10], [- 1, 10], [- 5, 11],
    [- 1, 11], [- 2, 12], [- 5, 12], [1, 3, 10], [1, 5, 11], [2, 5, 12]], 12,
    [Some (XC 5 10 1), Some (XC 5 10 999999), Some (XC 5 11 2), Some (XC 5 11 999999),
     Some (XC 5 11 999999), Some (QN 1 1 0), Some (QN 1 1 1), Some (QN 2 1 0),
     Some (QN 2 1 1), Some (CPREF 5 0), Some (CPREF 5 1), Some (CPREF 5 2)])"
  by (simp add: c1_globals_def c1_instance_def c1_couple_def encoder_defs)

text \<open>
  Claim C1 says that every assignment satisfying the emitted clauses decodes to a matching
  without a blocking pair. For the couple 5 with the pairs \<open>(1, 2)\<close> and \<open>(1, nil)\<close> the
  encoder numbers the nil variable of resident 11 twice (4 and 5), uses only 5 in the
  clauses and registers both under the same name. The assignment below satisfies every
  clause (it matches the couple to its first pair) and makes the free variable 4 true; the
  decoder reads variable 4 after variable 3 and returns resident 11 unmatched, and the
  couple blocks that matching with its first pair: hospital 2 is empty.
\<close>

theorem sat_decoding_blocking_pair:
  "case solve_sat_clauses ascending_set_order c1_globals c1_instance of
     None \<Rightarrow> False
   | Some st \<Rightarrow>
       satisfies c1_stale_assignment (emitted st)
     \<and> decode (variable_registry st) (singles c1_instance)
          [model_line c1_stale_assignment (last_uid st)]
        = Some [(10, 1), (11, NIL_HOSPITAL_UID)]
     \<and> couple_blocks c1_globals [(10, 1), (11, NIL_HOSPITAL_UID)] c1_couple 0"
proof -
  from c1_registry obtain st where
      st: "solve_sat_clauses ascending_set_order c1_globals c1_instance = Some st"
    and em: "emitted st = [[1, 2], [3, 5, 5], [- 1, - 2], [- 3, - 5], [1, 6], [- 1, 7], [- 1, - 6],
      [1, - 7], [3, 8], [- 3, 9], [- 3, - 8], [3, - 9], [- 10, 1], [- 10, 3],
      [10, - 1, - 3], [- 11, 10, 1], [- 11, 10, 5], [11, - 10],
      [11, - 1, - 5], [- 12, 11, 2], [- 12, 11, 5], [12, - 11],
      [12, - 2, - 5], [10, 11, 12], [- 3, 10], [- 1, 10], [- 5, 11],
      [- 1, 11], [- 2, 12], [- 5, 12], [1, 3, 10], [1, 5, 11], [2, 5, 12]]"
    and lu: "last_uid st = 12"
    and reg: "map (variable_registry st) [1, 2, 3, 4, 5, 6, 7, 8, 9, 10, 11, 12] =
      [Some (XC 5 10 1), Some (XC 5 10 999999), Some (XC 5 11 2), Some (XC 5 11 999999),
       Some (XC 5 11 999999), Some (QN 1 1 0), Some (QN 1 1 1), Some (QN 2 1 0),
       Some (QN 2 1 1), Some (CPREF 5 0), Some (CPREF 5 1), Some (CPREF 5 2)]"
    by auto
  have sat: "satisfies c1_stale_assignment (emitted st)"
    by (simp add: em c1_stale_assignment_def lit_true_def)
  have ml: "model_line c1_stale_assignment (last_uid st)
      = [1, - 2, 3, 4, - 5, - 6, 7, - 8, 9, 10, 11, 12, 0]"
    by (simp add: lu model_line_def c1_stale_assignment_def upt_conv_Cons)
  have dec: "decode (variable_registry st) (singles c1_instance)
          [model_line c1_stale_assignment (last_uid st)]
        = Some [(10, 1), (11, NIL_HOSPITAL_UID)]"
    using reg by (simp add: ml decode_def decode_line_def decode_literal_def c1_instance_def
        NIL_HOSPITAL_UID_def)
  have blk: "couple_blocks c1_globals [(10, 1), (11, NIL_HOSPITAL_UID)] c1_couple 0"
    by (simp add: couple_blocks_def c1_globals_def c1_couple_def C_get_ordering_def
        assigned_def rank_or_end_def at_capacity_for_def Agent_eq_def NIL_HOSPITAL_def
        NIL_HOSPITAL_UID_def SP_get_all_weakly_preferred_def get_all_weakly_preferred_def
        get_all_preferred_def Let_def)
  show ?thesis using sat dec blk by (simp add: st)
qed

section \<open>Literals of the emitted clauses\<close>

lemma nonzero_lits_append [simp]:
  "nonzero_lits (xs @ ys) \<longleftrightarrow> nonzero_lits xs \<and> nonzero_lits ys"
  by (auto simp: nonzero_lits_def)

lemma nonzero_lits_Cons [simp]:
  "nonzero_lits (c # cs) \<longleftrightarrow> 0 \<notin> set c \<and> nonzero_lits cs"
  by (auto simp: nonzero_lits_def)

lemma nonzero_lits_Nil [simp]: "nonzero_lits []"
  by (simp add: nonzero_lits_def)










































section \<open>The verify modes\<close>











section \<open>The verify modes on a third instance\<close>

lemma d1_from_file:
  "from_file ascending_set_order
     [''p 1 2 10'' @ [newline], ''p 2 2 11'' @ [newline], ''p 3 1 10'' @ [newline],
      ''p 4 1 11'' @ [newline], ''c 5 10 11 1 2 3 4'' @ [newline]]
     False module_globals = Inr (d1_instance, d1_globals)"
  by (simp add: from_file_def from_file_line_def couple_line_def
      program_line_def py_split_def is_space_def newline_def starts_with_def
      py_int_def digit_of_char_def bind_err_def item_at_def hospital_token_def
      NIL_HOSPITAL_SYMBOL_def Couple_init_def ascending_set_order_def
      Resident_init_def Hospital_init_def module_globals_def d1_instance_def d1_globals_def
      d1_couple_def d1_hospital_def ProblemInstance_init_def Let_def NIL_HOSPITAL_UID_def
      fun_upd_twist)









end
